theory Spec2Isabelle
  imports Main "HOL-Library.Multiset"
begin

section \<open>Python strings and integers\<close>

text \<open>
  A Python \<open>str\<close> is a \<open>string\<close>, one \<open>char\<close> per character. The only character
  outside ASCII in \<open>staking.py\<close> is U+2550 (the double horizontal bar of the boxes);
  it is the single character \<open>double_bar\<close>, so that \<open>length\<close> is Python's \<open>len\<close>.
  Python's \<open>int\<close> is \<open>int\<close>.
\<close>

definition double_bar :: char where
  "double_bar = CHR 0xCD"

definition newline :: string where
  "newline = [CHR 0x0A]"

text \<open>\<open>str(n)\<close> for an \<open>int\<close>: the decimal digits, with a leading minus sign below zero.\<close>

definition digit_char :: "nat \<Rightarrow> char" where
  "digit_char d = ''0123456789'' ! d"

fun str_nat :: "nat \<Rightarrow> string" where
  "str_nat n = (if n < 10 then [digit_char n] else str_nat (n div 10) @ [digit_char (n mod 10)])"

declare str_nat.simps [simp del]

definition str_int :: "int \<Rightarrow> string" where
  "str_int i = (if i < 0 then ''-'' @ str_nat (nat (- i)) else str_nat (nat i))"

text \<open>\<open>s * n\<close> on a string: the empty string when \<open>n\<close> is not positive.\<close>

definition str_times :: "string \<Rightarrow> int \<Rightarrow> string" where
  "str_times s n = concat (replicate (nat n) s)"

text \<open>The format specification \<open>{s:w}\<close> of a string: padded with blanks on the right to
  width \<open>w\<close>, never cut.\<close>

definition ljust :: "nat \<Rightarrow> string \<Rightarrow> string" where
  "ljust w s = s @ replicate (w - length s) CHR '' ''"

text \<open>\<open>str.capitalize()\<close> on ASCII text: the first character in upper case, the others in
  lower case.\<close>

definition upper_char :: "char \<Rightarrow> char" where
  "upper_char c = (let n = (of_char c :: nat) in if 97 \<le> n \<and> n \<le> 122 then char_of (n - 32) else c)"

definition lower_char :: "char \<Rightarrow> char" where
  "lower_char c = (let n = (of_char c :: nat) in if 65 \<le> n \<and> n \<le> 90 then char_of (n + 32) else c)"

fun capitalize :: "string \<Rightarrow> string" where
  "capitalize [] = []"
| "capitalize (c # cs) = upper_char c # map lower_char cs"

text \<open>Truth value of an optional string (\<open>None\<close> and the empty string are false).\<close>

fun truthy_str :: "string option \<Rightarrow> bool" where
  "truthy_str None = False"
| "truthy_str (Some s) = (s \<noteq> [])"

text \<open>
  The object \<open>filter(f, xs)\<close> returns. The class defines neither \<open>__bool__\<close> nor
  \<open>__len__\<close>, so the truth value of every such object is \<open>True\<close>, whatever it would yield.
\<close>

datatype 'a filter_object = Filter "'a \<Rightarrow> bool" "'a list"

fun truthy_filter :: "'a filter_object \<Rightarrow> bool" where
  "truthy_filter (Filter f xs) = True"

section \<open>The output sink\<close>

text \<open>
  \<open>emitter.echo(message, color, bold, nl)\<close> appends one call to the sink. A message is a
  string, or the string \<open>tabulate.tabulate\<close> returns for the rows and keyword arguments
  of the call; the grid it draws is not interpreted, the arguments are kept.
\<close>

datatype color = Red | Green | Yellow | Blue

datatype payload =
    Str string
  | Tabulate "string list list" "string list" "string option" "string option" bool
    \<comment> \<open>rows, \<open>headers\<close>, \<open>tablefmt\<close>, \<open>floatfmt\<close>, \<open>showindex\<close>\<close>

record echo_call =
  message :: payload
  color :: "color option"
  bold :: bool
  nl :: bool

definition say :: "string \<Rightarrow> echo_call" where
  "say s = \<lparr>message = Str s, color = None, bold = False, nl = True\<rparr>"

definition table :: "string list list \<Rightarrow> string list \<Rightarrow> string option \<Rightarrow> string option \<Rightarrow> bool \<Rightarrow> echo_call" where
  "table rows hs tablefmt floatfmt showindex =
     \<lparr>message = Tabulate rows hs tablefmt floatfmt showindex, color = None, bold = False, nl = True\<rparr>"

text \<open>
  The state of a call: the sink and the views passed to the call, both passed by
  reference. A render function maps the state before the call to the state after it.
\<close>

record 'v world =
  emitter :: "echo_call list"
  views :: 'v

definition echo :: "echo_call \<Rightarrow> 'v world \<Rightarrow> 'v world" where
  "echo c w = w\<lparr>emitter := emitter w @ [c]\<rparr>"

datatype error = NameError | IndexError

datatype 's outcome = Returned 's | Raised error 's

fun final :: "'s outcome \<Rightarrow> 's" where
  "final (Returned s) = s"
| "final (Raised e s) = s"

section \<open>The views\<close>

record 'k stake =
  staker_address :: string
  worker_address :: string
  index :: int
  value_nu :: int
  duration :: int
  is_active :: bool
  address_index_ordering_key :: 'k
  describe :: "string list"
  first_locked_period :: int
  final_locked_period :: int
  start_datetime :: int
  unlock_datetime :: int

record policy_agent =
  get_reward_amount :: "string \<Rightarrow> int"
  get_min_reward_rate :: "string \<Rightarrow> int"

record staking_agent =
  get_current_period :: int
  owned_tokens :: "string \<Rightarrow> int"
  get_locked_tokens :: "string \<Rightarrow> int"
  get_last_active_period :: "string \<Rightarrow> int"
  get_worker_from_staker :: "string \<Rightarrow> string"
  agent_is_restaking :: "string \<Rightarrow> bool"
  agent_is_winding_down :: "string \<Rightarrow> bool"
  is_restaking_locked :: "string \<Rightarrow> bool"
  get_restake_unlock_period :: "string \<Rightarrow> int"
  contract_address :: string

record registry_source =
  network :: string

record registry =
  source :: "registry_source option"

record 'k staker =
  checksum_address :: string
  staker_worker_address :: string
  stakes :: "'k stake list"
  policy_agent :: policy_agent
  staking_agent :: staking_agent
  missing_confirmations :: int
  min_reward_rate :: int
  is_restaking :: bool
  restaking_lock_enabled :: bool
  is_winding_down :: bool
  registry :: registry

record client =
  chain_id :: int
  chain_name :: string

record blockchain =
  client :: client

record wallet =
  blockchain :: blockchain
  accounts :: "string list"
  eth_balance :: "string \<Rightarrow> int"
  token_balance :: "string \<Rightarrow> registry \<Rightarrow> int"

record economics =
  seconds_per_period :: int

record 'k stakeholder =
  get_stakers :: "'k staker list"
  economics :: economics
  wallet :: wallet

type_synonym receipt = "(string \<times> string) list"

record new_stake =
  receipt :: receipt

text \<open>
  The names \<open>staking.py\<close> uses from other modules. \<open>nickname_from_seed\<close> is \<open>None\<close> when
  the module's globals bind no such name: \<open>staking.py\<close> itself imports none.
\<close>

record 'k env =
  prettify_eth_amount :: "int \<Rightarrow> string"
  datetime_at_period :: "int \<Rightarrow> int \<Rightarrow> bool \<Rightarrow> int"
  local_strftime :: "int \<Rightarrow> string"
  str_NU :: "int \<Rightarrow> string"
  round_NU :: "int \<Rightarrow> int \<Rightarrow> int"
  str_fromWei_ether :: "int \<Rightarrow> string"
  nickname_from_seed :: "(string \<Rightarrow> string \<times> (string \<times> string) list) option"
  paint_receipt_summary :: "receipt \<Rightarrow> string \<Rightarrow> echo_call list"
  Staker :: "bool \<Rightarrow> string \<Rightarrow> registry \<Rightarrow> 'k staker"
  refresh :: "'k staker \<Rightarrow> 'k stake list"
  NULL_ADDRESS :: string
  STAKING_ESCROW_CONTRACT_NAME :: string

section \<open>\<open>paint_stakes\<close>\<close>

text \<open>Lines 59 to 62: the label of the missing confirmations.\<close>

definition missing_info :: "int \<Rightarrow> int \<Rightarrow> string" where
  "missing_info missing last_confirmed =
     (if missing = - 1 then ''Never Confirmed (New Stake)''
      else if missing \<noteq> 0
        then ''Missing '' @ str_int missing @ '' confirmation'' @ (if missing > 1 then ''s'' else [])
        else ''Confirmed #'' @ str_int last_confirmed)"

text \<open>Lines 53 to 68: the status cells of a staker.\<close>

definition staker_data :: "'k env \<Rightarrow> 'k staker \<Rightarrow> string list" where
  "staker_data env staker =
     (let fees = get_reward_amount (policy_agent staker) (checksum_address staker);
          pretty_fees = prettify_eth_amount env fees;
          last_confirmed = get_last_active_period (staking_agent staker) (checksum_address staker);
          missing = missing_confirmations staker;
          min_reward_rate' = prettify_eth_amount env (min_reward_rate staker)
      in [missing_info missing last_confirmed,
          (if is_restaking staker then ''Yes'' else ''No'') @ '' ('' @
            (if restaking_lock_enabled staker then ''Locked'' else ''Unlocked'') @ '')'',
          (if is_winding_down staker then ''Yes'' else ''No''),
          pretty_fees,
          min_reward_rate'])"

definition headers :: "string list" where
  "headers = [''Idx'', ''Value'', ''Remaining'', ''Enactment'', ''Termination'']"

definition staker_headers :: "string list" where
  "staker_headers = [''Status'', ''Restaking'', ''Winding Down'', ''Unclaimed Fees'', ''Min reward rate'']"

text \<open>Lines 70 to 74: the network line, echoed when the registry has a source.\<close>

definition network_line :: "registry_source \<Rightarrow> echo_call" where
  "network_line src =
     (let line_width = 54;
          network_snippet = newline @ ''Network '' @ capitalize (network src) @ '' '';
          snippet_with_line =
            network_snippet @ str_times [double_bar] (line_width - int (length network_snippet) + 1)
      in (say snippet_with_line)\<lparr>bold := True\<rparr>)"

text \<open>Line 75: the staker header line.\<close>

definition staker_line :: "'k staker \<Rightarrow> echo_call" where
  "staker_line staker =
     (say (''Staker '' @ checksum_address staker @ '' '' @ str_times [double_bar] 4))
       \<lparr>bold := True, color := Some (if missing_confirmations staker \<noteq> 0 then Red else Green)\<rparr>"

text \<open>Line 76: the worker line.\<close>

definition worker_line :: "'k staker \<Rightarrow> echo_call" where
  "worker_line staker =
     say (''Worker '' @ staker_worker_address staker @ '' '' @ str_times [double_bar] 4)"

text \<open>Line 77: the status table, \<open>zip(staker_headers, staker_data)\<close>.\<close>

definition status_table :: "'k env \<Rightarrow> 'k staker \<Rightarrow> echo_call" where
  "status_table env staker =
     table (map (\<lambda>(h, d). [h, d]) (zip staker_headers (staker_data env staker)))
       [] None (Some ''fancy_grid'') False"

text \<open>Lines 79 to 84: the rows of the stake table, one pass over the sorted stakes.\<close>

definition stake_rows :: "bool \<Rightarrow> 'k stake list \<Rightarrow> string list list" where
  "stake_rows paint_inactive stakes' =
     foldl (\<lambda>rows stake.
              if \<not> is_active stake \<and> \<not> paint_inactive then rows else rows @ [describe stake])
       [] stakes'"

text \<open>Line 48: \<open>sorted\<close> is stable, as \<open>sort_key\<close> is.\<close>

definition sorted_stakes :: "('k::linorder) staker \<Rightarrow> 'k stake list" where
  "sorted_stakes staker = sort_key address_index_ordering_key (stakes staker)"

text \<open>Line 86: the stake table.\<close>

definition stakes_table :: "bool \<Rightarrow> ('k::linorder) staker \<Rightarrow> echo_call" where
  "stakes_table paint_inactive staker =
     table (stake_rows paint_inactive (sorted_stakes staker)) headers (Some ''fancy_grid'') None False"

definition no_active_stakes :: echo_call where
  "no_active_stakes = say (''There are no active stakes'' @ newline)"

text \<open>Lines 38 to 86: the body of the loop over the stakers. Its state is the state of
  the call and the counter \<open>total_stakers\<close>.\<close>

definition paint_stakes_body ::
  "('k::linorder) env \<Rightarrow> bool \<Rightarrow> string option \<Rightarrow> 'k staker \<Rightarrow> 'v world \<times> nat \<Rightarrow> 'v world \<times> nat" where
  "paint_stakes_body env paint_inactive staker_address' staker st =
     (case st of (w, total_stakers) \<Rightarrow>
        if stakes staker = [] then (w, total_stakers)
        else if truthy_str staker_address' \<and> Some (checksum_address staker) \<noteq> staker_address'
          then (w, total_stakers)
        else
          let active_stakes = Filter is_active (sorted_stakes staker);
              w1 = (if \<not> truthy_filter active_stakes then echo no_active_stakes w else w);
              w2 = (case source (registry staker) of
                      None \<Rightarrow> w1
                    | Some src \<Rightarrow> echo (network_line src) w1);
              w3 = echo (staker_line staker) w2;
              w4 = echo (worker_line staker) w3;
              w5 = echo (status_table env staker) w4;
              w6 = echo (stakes_table paint_inactive staker) w5
          in (w6, total_stakers + 1))"

definition no_staking_accounts :: echo_call where
  "no_staking_accounts = say ''No staking accounts found.''"

definition no_stakes_found :: echo_call where
  "no_stakes_found = (say ''No Stakes found'')\<lparr>color := Some Red\<rparr>"

text \<open>Lines 33 to 37: what runs before the loop.\<close>

definition paint_stakes_start :: "'k stakeholder world \<Rightarrow> 'k stakeholder world" where
  "paint_stakes_start w =
     (if get_stakers (views w) = [] then echo no_staking_accounts w else w)"

text \<open>Lines 38 to 86: the loop, from \<open>total_stakers = 0\<close>.\<close>

definition paint_stakes_loop ::
  "('k::linorder) env \<Rightarrow> bool \<Rightarrow> string option \<Rightarrow> 'k stakeholder world \<Rightarrow> 'k stakeholder world \<times> nat" where
  "paint_stakes_loop env paint_inactive staker_address' w =
     foldl (\<lambda>st staker. paint_stakes_body env paint_inactive staker_address' staker st)
       (paint_stakes_start w, 0) (get_stakers (views w))"

definition paint_stakes ::
  "('k::linorder) env \<Rightarrow> bool \<Rightarrow> string option \<Rightarrow> 'k stakeholder world \<Rightarrow> 'k stakeholder world" where
  "paint_stakes env paint_inactive staker_address' w =
     (case paint_stakes_loop env paint_inactive staker_address' w of
        (w', total_stakers) \<Rightarrow> if total_stakers = 0 then echo no_stakes_found w' else w')"

section \<open>\<open>prettify_stake\<close>\<close>

text \<open>Line 97: the duration field.\<close>

definition pretty_periods :: "int \<Rightarrow> string" where
  "pretty_periods d =
     str_int d @ '' periods '' @ (if length (str_int d) = 2 then ''.'' else [])"

text \<open>The result is the string and the stake after the call.\<close>

definition prettify_stake :: "'k env \<Rightarrow> int option \<Rightarrow> 'k stake \<Rightarrow> string \<times> 'k stake" where
  "prettify_stake env idx stake =
     (let start_datetime' = local_strftime env (start_datetime stake);
          expiration_datetime = local_strftime env (unlock_datetime stake);
          pretty =
            ''| '' @ (case idx of Some i \<Rightarrow> str_int i | None \<Rightarrow> ''-'') @ '' '' @
            ''| '' @ take 6 (staker_address stake) @ '' '' @
            ''| '' @ take 6 (worker_address stake) @ '' '' @
            ''| '' @ str_int (index stake) @ '' '' @
            ''| '' @ str_NU env (value_nu stake) @ '' '' @
            ''| '' @ pretty_periods (duration stake) @ '' '' @
            ''| '' @ start_datetime' @ '' - '' @ expiration_datetime @ '' ''
      in (pretty, stake))"

section \<open>\<open>paint_staged_stake\<close> and \<open>paint_staged_stake_division\<close>\<close>

definition bars :: "int \<Rightarrow> string" where
  "bars n = str_times [double_bar] n"

text \<open>Lines 159 to 166: the text of the staged stake. A token amount is its number of
  NuNits, so \<open>int(stake_value)\<close> is the amount itself.\<close>

definition staged_stake_text ::
  "'k env \<Rightarrow> 'k stakeholder \<Rightarrow> string \<Rightarrow> int \<Rightarrow> int \<Rightarrow> int \<Rightarrow> int \<Rightarrow> string \<Rightarrow> string \<Rightarrow> string" where
  "staged_stake_text env stakeholder staking_address stake_value lock_periods start_period unlock_period
      start_datetime_pretty unlock_datetime_pretty =
     newline @ ''Staking address: '' @ staking_address @
     newline @ ''~ Chain      -> ID # '' @ str_int (chain_id (client (blockchain (wallet stakeholder)))) @
       '' | '' @ chain_name (client (blockchain (wallet stakeholder))) @
     newline @ ''~ Value      -> '' @ str_NU env stake_value @ '' ('' @ str_int stake_value @ '' NuNits)'' @
     newline @ ''~ Duration   -> '' @ str_int lock_periods @ '' Days ('' @ str_int lock_periods @ '' Periods)'' @
     newline @ ''~ Enactment  -> '' @ start_datetime_pretty @ '' (period #'' @ str_int start_period @ '')'' @
     newline @ ''~ Expiration -> '' @ unlock_datetime_pretty @ '' (period #'' @ str_int unlock_period @ '')'' @
     newline @ ''    ''"

definition paint_staged_stake ::
  "'k env \<Rightarrow> string \<Rightarrow> int \<Rightarrow> int \<Rightarrow> int \<Rightarrow> int \<Rightarrow> string option \<Rightarrow>
     'k stakeholder world \<Rightarrow> 'k stakeholder world" where
  "paint_staged_stake env staking_address stake_value lock_periods start_period unlock_period
      division_message w =
     (let start_datetime' =
            datetime_at_period env start_period (seconds_per_period (economics (views w))) True;
          unlock_datetime' =
            datetime_at_period env unlock_period (seconds_per_period (economics (views w))) True;
          start_datetime_pretty = local_strftime env start_datetime';
          unlock_datetime_pretty = local_strftime env unlock_datetime';
          w1 = (case division_message of
                  None \<Rightarrow> w
                | Some m \<Rightarrow>
                    if m = [] then w
                    else echo (say m)
                           (echo ((say (newline @ bars 30 @ '' ORIGINAL STAKE '' @ bars 28))\<lparr>bold := True\<rparr>) w));
          w2 = echo ((say (newline @ bars 30 @ '' STAGED STAKE '' @ bars 30))\<lparr>bold := True\<rparr>) w1;
          w3 = echo (say (staged_stake_text env (views w2) staking_address stake_value lock_periods
                        start_period unlock_period start_datetime_pretty unlock_datetime_pretty)) w2
      in echo ((say (bars 73))\<lparr>bold := True\<rparr>) w3)"

text \<open>Lines 110 to 131. The views are the stakeholder and the original stake; the
  stakeholder goes on to \<open>paint_staged_stake\<close> with the sink.\<close>

definition paint_staged_stake_division ::
  "'k env \<Rightarrow> int \<Rightarrow> int \<Rightarrow> ('k stakeholder \<times> 'k stake) world \<Rightarrow> ('k stakeholder \<times> 'k stake) world" where
  "paint_staged_stake_division env target_value extension w =
     (case views w of (stakeholder, original_stake) \<Rightarrow>
        let new_end_period = final_locked_period original_stake + extension;
            new_duration_periods = new_end_period - first_locked_period original_stake + 1;
            staking_address = staker_address original_stake
        in case prettify_stake env None original_stake of (pretty, original_stake') \<Rightarrow>
          let division_message =
                newline @ ''Staking address: '' @ staking_address @
                newline @ ''~ Original Stake: '' @ pretty @ newline;
              w' = paint_staged_stake env staking_address target_value new_duration_periods
                     (first_locked_period original_stake') (new_end_period + 1) (Some division_message)
                     \<lparr>emitter = emitter w, views = stakeholder\<rparr>
          in \<lparr>emitter = emitter w', views = (views w', original_stake')\<rparr>)"

section \<open>\<open>paint_stakers\<close>\<close>

datatype activity = NextConfirmed | CurrentConfirmed | NeverConfirmed | MissingN

text \<open>Lines 208, 210, 213 and 215: the line each branch echoes.\<close>

fun activity_echo :: "activity \<Rightarrow> int \<Rightarrow> int \<Rightarrow> echo_call" where
  "activity_echo NextConfirmed missing last_confirmed_period =
     (say (''Next period confirmed (#'' @ str_int last_confirmed_period @ '')''))\<lparr>color := Some Green\<rparr>"
| "activity_echo CurrentConfirmed missing last_confirmed_period =
     (say (''Current period confirmed (#'' @ str_int last_confirmed_period @ ''). '' @
           ''Pending confirmation of next period.''))\<lparr>color := Some Yellow\<rparr>"
| "activity_echo NeverConfirmed missing last_confirmed_period =
     (say ''Never confirmed activity'')\<lparr>color := Some Red\<rparr>"
| "activity_echo MissingN missing last_confirmed_period =
     (say (''Missing '' @ str_int missing @ '' confirmations '' @
           ''(last time for period #'' @ str_int last_confirmed_period @ '')''))\<lparr>color := Some Red\<rparr>"

text \<open>Lines 207 to 216: the chain of \<open>if\<close>, \<open>elif\<close> and \<open>else\<close>.\<close>

definition activity_line :: "int \<Rightarrow> int \<Rightarrow> int \<Rightarrow> echo_call" where
  "activity_line missing_confirmations' current_period last_confirmed_period =
     (if missing_confirmations' = - 1
        then activity_echo NextConfirmed missing_confirmations' last_confirmed_period
      else if missing_confirmations' = 0
        then activity_echo CurrentConfirmed missing_confirmations' last_confirmed_period
      else if missing_confirmations' = current_period
        then activity_echo NeverConfirmed missing_confirmations' last_confirmed_period
      else activity_echo MissingN missing_confirmations' last_confirmed_period)"

text \<open>The condition of each of the four cases, as the specification lists them:
  \<open>missing == -1\<close>, \<open>missing == 0\<close>, \<open>missing == currentPeriod\<close>, and otherwise, which is
  none of these three.\<close>

fun condition :: "activity \<Rightarrow> int \<Rightarrow> int \<Rightarrow> bool" where
  "condition NextConfirmed missing current_period = (missing = - 1)"
| "condition CurrentConfirmed missing current_period = (missing = 0)"
| "condition NeverConfirmed missing current_period = (missing = current_period)"
| "condition MissingN missing current_period =
     (\<not> (missing = - 1 \<or> missing = 0 \<or> missing = current_period))"

definition cases_in_order :: "activity list" where
  "cases_in_order = [NextConfirmed, CurrentConfirmed, NeverConfirmed, MissingN]"

text \<open>A \<open>for\<close> loop whose body may raise: the first exception ends the loop, with the
  state as it is then.\<close>

fun for_each :: "('a \<Rightarrow> 's \<Rightarrow> 's outcome) \<Rightarrow> 'a list \<Rightarrow> 's \<Rightarrow> 's outcome" where
  "for_each body [] s = Returned s"
| "for_each body (x # xs) s =
     (case body x s of Returned s' \<Rightarrow> for_each body xs s' | Raised e s' \<Rightarrow> Raised e s')"

type_synonym stakers_views = "string list \<times> staking_agent \<times> policy_agent"

text \<open>Lines 181 to 228: the body of the loop over the staker addresses.\<close>

definition paint_stakers_body ::
  "'k env \<Rightarrow> int \<Rightarrow> string \<Rightarrow> stakers_views world \<Rightarrow> stakers_views world outcome" where
  "paint_stakers_body env current_period staker w =
     (case views w of (stakers, staking_agent', policy_agent') \<Rightarrow>
      (case nickname_from_seed env of
        None \<Rightarrow> Raised NameError w
      | Some f \<Rightarrow>
         (case f staker of (nickname, pairs) \<Rightarrow>
          if length pairs < 2 then Raised IndexError w
          else
            let symbols = snd (pairs ! 0) @ ''  '' @ snd (pairs ! 1);
                w1 = echo (say (staker @ ''  '' @ ljust 10 ''Nickname:'' @ '' '' @ nickname @ '' '' @ symbols)) w;
                tab = str_times '' '' (int (length staker));
                owned_tokens' = owned_tokens staking_agent' staker;
                last_confirmed_period = get_last_active_period staking_agent' staker;
                worker = get_worker_from_staker staking_agent' staker;
                is_restaking' = agent_is_restaking staking_agent' staker;
                is_winding_down' = agent_is_winding_down staking_agent' staker;
                missing_confirmations' = current_period - last_confirmed_period;
                owned_in_nu = round_NU env owned_tokens' 2;
                locked_tokens = round_NU env (get_locked_tokens staking_agent' staker) 2;
                w2 = echo (say (tab @ ''  '' @ ljust 10 ''Owned:'' @ '' '' @ str_NU env owned_in_nu @
                                ''  (Staked: '' @ str_NU env locked_tokens @ '')'')) w1;
                w3 = (if is_restaking' then
                        (if is_restaking_locked staking_agent' staker then
                           echo (say (tab @ ''  '' @ ljust 10 ''Re-staking:'' @ '' Yes  (Locked until period: '' @
                                      str_int (get_restake_unlock_period staking_agent' staker) @ '')'')) w2
                         else echo (say (tab @ ''  '' @ ljust 10 ''Re-staking:'' @ '' Yes  (Unlocked)'')) w2)
                      else echo (say (tab @ ''  '' @ ljust 10 ''Re-staking:'' @ '' No'')) w2);
                w4 = echo (say (tab @ ''  '' @ ljust 10 ''Winding down:'' @ '' '' @
                                (if is_winding_down' then ''Yes'' else ''No''))) w3;
                w5 = echo ((say (tab @ ''  '' @ ljust 10 ''Activity:'' @ '' ''))\<lparr>nl := False\<rparr>) w4;
                w6 = echo (activity_line missing_confirmations' current_period last_confirmed_period) w5;
                w7 = echo ((say (tab @ ''  '' @ ljust 10 ''Worker:'' @ '' ''))\<lparr>nl := False\<rparr>) w6;
                w8 = (if worker = NULL_ADDRESS env
                        then echo ((say ''Worker not set'')\<lparr>color := Some Red\<rparr>) w7
                        else echo (say worker) w7);
                fees = prettify_eth_amount env (get_reward_amount policy_agent' staker);
                w9 = echo (say (tab @ ''  Unclaimed fees: '' @ fees)) w8;
                min_rate = prettify_eth_amount env (get_min_reward_rate policy_agent' staker)
            in Returned (echo (say (tab @ ''  Min reward rate: '' @ min_rate)) w9))))"

definition paint_stakers :: "'k env \<Rightarrow> stakers_views world \<Rightarrow> stakers_views world outcome" where
  "paint_stakers env w =
     (case views w of (stakers, staking_agent', policy_agent') \<Rightarrow>
        let current_period = get_current_period staking_agent';
            w1 = echo (say (newline @ ''Current period: '' @ str_int current_period)) w;
            w2 = echo (say (newline @ ''| Stakers |'' @ newline)) w1;
            w3 = echo (say (ljust 42 ''Checksum address'' @ ''  Staker information'')) w2;
            w4 = echo (say (str_times ''='' (42 + 2 + 53))) w3
        in for_each (paint_stakers_body env current_period) stakers w4)"

section \<open>\<open>paint_staking_confirmation\<close> and \<open>paint_staking_accounts\<close>\<close>

definition apostrophe :: string where
  "apostrophe = [CHR 0x27]"

definition next_steps :: string where
  "next_steps =
     newline @ ''View your stakes by running '' @ apostrophe @ ''nucypher stake list'' @ apostrophe @
     newline @ ''or set your Ursula worker node address by running '' @ apostrophe @
       ''nucypher stake set-worker'' @ apostrophe @ ''.'' @
     newline @ newline @ ''See https://docs.nucypher.com/en/latest/guides/staking_guide.html''"

definition paint_staking_confirmation ::
  "'k env \<Rightarrow> ('k staker \<times> new_stake) world \<Rightarrow> ('k staker \<times> new_stake) world" where
  "paint_staking_confirmation env w =
     (case views w of (staker, new_stake') \<Rightarrow>
        let w1 = echo ((say (newline @ ''Stake initialization transaction was successful.''))
                         \<lparr>color := Some Green\<rparr>) w;
            w2 = echo (say (newline @ ''Transaction details:'')) w1;
            w3 = w2\<lparr>emitter := emitter w2 @ paint_receipt_summary env (receipt new_stake') ''deposit stake''\<rparr>;
            w4 = echo ((say (newline @ STAKING_ESCROW_CONTRACT_NAME env @ '' address: '' @
                             contract_address (staking_agent staker)))\<lparr>color := Some Blue\<rparr>) w3
        in echo ((say next_steps)\<lparr>color := Some Green\<rparr>) w4)"

text \<open>Lines 248 to 254: the row of one account. The staker is an object of the call's
  own; \<open>refresh\<close> writes its stakes.\<close>

definition account_row :: "'k env \<Rightarrow> wallet \<Rightarrow> registry \<Rightarrow> string \<Rightarrow> string list" where
  "account_row env wallet' registry' account =
     (let eth = str_fromWei_ether env (eth_balance wallet' account) @ '' ETH'';
          nu = str_NU env (token_balance wallet' account registry');
          staker = Staker env True account registry';
          staker' = staker\<lparr>stakes := refresh env staker\<rparr>;
          is_staking = (if stakes staker' \<noteq> [] then ''Yes'' else ''No'')
      in [is_staking, account, eth, nu])"

definition paint_staking_accounts ::
  "'k env \<Rightarrow> (wallet \<times> registry) world \<Rightarrow> (wallet \<times> registry) world" where
  "paint_staking_accounts env w =
     (case views w of (wallet', registry') \<Rightarrow>
        let rows = foldl (\<lambda>rows account. rows @ [account_row env wallet' registry' account])
                     [] (accounts wallet');
            headers' = [''Staking'', ''Account'', ''ETH'', ''NU'']
        in echo (table rows headers' (Some ''fancy_grid'') None True) w)"

section \<open>What a call of \<open>paint_stakes\<close> echoes\<close>

text \<open>Lines 39 to 46: a staker is rendered when it has stakes and passes the address
  filter; the loop body goes on to the next staker otherwise.\<close>

definition rendered :: "string option \<Rightarrow> 'k staker \<Rightarrow> bool" where
  "rendered staker_address' staker \<longleftrightarrow>
     stakes staker \<noteq> [] \<and>
     \<not> (truthy_str staker_address' \<and> Some (checksum_address staker) \<noteq> staker_address')"

text \<open>Lines 71 to 86: the calls of \<open>echo\<close> for a rendered staker, in order.\<close>

definition staker_echoes :: "('k::linorder) env \<Rightarrow> bool \<Rightarrow> 'k staker \<Rightarrow> echo_call list" where
  "staker_echoes env paint_inactive staker =
     (case source (registry staker) of None \<Rightarrow> [] | Some src \<Rightarrow> [network_line src]) @
     [staker_line staker, worker_line staker, status_table env staker,
      stakes_table paint_inactive staker]"

section \<open>Concrete inputs\<close>

definition example_stake :: "nat \<Rightarrow> bool \<Rightarrow> nat stake" where
  "example_stake k active =
     \<lparr>staker_address = ''0xA1B2C3D4E5'', worker_address = ''0xF6A7B8C9D0'', index = int k,
      value_nu = 15000, duration = 30, is_active = active, address_index_ordering_key = k,
      describe = [str_nat k, ''15000 NU'', ''30'', ''100'', ''130''],
      first_locked_period = 100, final_locked_period = 129,
      start_datetime = 0, unlock_datetime = 0\<rparr>"

definition example_staker :: "int \<Rightarrow> int \<Rightarrow> nat stake list \<Rightarrow> nat staker" where
  "example_staker missing last_confirmed xs =
     \<lparr>checksum_address = ''0xA1B2C3D4E5'', staker_worker_address = ''0xF6A7B8C9D0'', stakes = xs,
      policy_agent = \<lparr>get_reward_amount = (\<lambda>a. 0), get_min_reward_rate = (\<lambda>a. 0)\<rparr>,
      staking_agent =
        \<lparr>get_current_period = last_confirmed + missing, owned_tokens = (\<lambda>a. 15000),
         get_locked_tokens = (\<lambda>a. 15000), get_last_active_period = (\<lambda>a. last_confirmed),
         get_worker_from_staker = (\<lambda>a. ''0xF6A7B8C9D0''), agent_is_restaking = (\<lambda>a. True),
         agent_is_winding_down = (\<lambda>a. False), is_restaking_locked = (\<lambda>a. False),
         get_restake_unlock_period = (\<lambda>a. 0), contract_address = ''0xC0FFEE''\<rparr>,
      missing_confirmations = missing, min_reward_rate = 0, is_restaking = True,
      restaking_lock_enabled = False, is_winding_down = False,
      registry = \<lparr>source = None\<rparr>\<rparr>"

definition example_stakeholder :: "nat staker list \<Rightarrow> nat stakeholder" where
  "example_stakeholder xs =
     \<lparr>get_stakers = xs, economics = \<lparr>seconds_per_period = 86400\<rparr>,
      wallet = \<lparr>blockchain = \<lparr>client = \<lparr>chain_id = 5, chain_name = ''Goerli''\<rparr>\<rparr>,
                accounts = [''0xA1B2C3D4E5''], eth_balance = (\<lambda>a. 0),
                token_balance = (\<lambda>a r. 0)\<rparr>\<rparr>"

definition example_env :: "nat env" where
  "example_env =
     \<lparr>prettify_eth_amount = (\<lambda>n. str_int n @ '' wei''),
      datetime_at_period = (\<lambda>p s b. p * s),
      local_strftime = str_int,
      str_NU = (\<lambda>n. str_int n @ '' NuNits''),
      round_NU = (\<lambda>n d. n),
      str_fromWei_ether = str_int,
      nickname_from_seed = None,
      paint_receipt_summary = (\<lambda>r t. []),
      Staker = (\<lambda>me a r. example_staker 0 0 []),
      refresh = (\<lambda>s. []),
      NULL_ADDRESS = ''0x0000000000'',
      STAKING_ESCROW_CONTRACT_NAME = ''StakingEscrow''\<rparr>"

definition example_stakers_world :: "stakers_views world" where
  "example_stakers_world =
     \<lparr>emitter = [],
      views = ([''0xA1B2C3D4E5''], staking_agent (example_staker 0 100 []),
               policy_agent (example_staker 0 100 []))\<rparr>"

section \<open>Decimal strings\<close>

lemma length_str_nat_small: "n < 10 \<Longrightarrow> length (str_nat n) = 1"
  by (simp add: str_nat.simps [of n])

lemma length_str_nat_pos: "0 < length (str_nat n)"
  by (subst str_nat.simps) simp

lemma length_str_nat_step: "10 \<le> n \<Longrightarrow> length (str_nat n) = Suc (length (str_nat (n div 10)))"
  by (subst str_nat.simps) simp

lemma length_str_nat_two: "length (str_nat n) = 2 \<longleftrightarrow> 10 \<le> n \<and> n < 100"
proof (cases "n < 10")
  case True
  then show ?thesis by (simp add: length_str_nat_small)
next
  case False
  then have ten: "10 \<le> n" by simp
  show ?thesis
  proof (cases "n < 100")
    case True
    then have "n div 10 < 10" by simp
    then have "length (str_nat (n div 10)) = 1" by (rule length_str_nat_small)
    with ten True show ?thesis by (simp add: length_str_nat_step)
  next
    case False
    then have "10 \<le> n div 10" by simp
    then have "length (str_nat (n div 10)) = Suc (length (str_nat (n div 10 div 10)))"
      by (rule length_str_nat_step)
    with ten False length_str_nat_pos [of "n div 10 div 10"] show ?thesis
      by (simp add: length_str_nat_step)
  qed
qed

lemma length_str_int_two:
  "length (str_int d) = 2 \<longleftrightarrow> (10 \<le> d \<and> d \<le> 99) \<or> (- 9 \<le> d \<and> d \<le> - 1)"
proof (cases "d < 0")
  case True
  have "length (str_nat (nat (- d))) = 1 \<longleftrightarrow> nat (- d) < 10"
    using length_str_nat_small [of "nat (- d)"] length_str_nat_step [of "nat (- d)"]
      length_str_nat_pos [of "nat (- d) div 10"]
    by (cases "nat (- d) < 10") auto
  with True show ?thesis by (auto simp: str_int_def)
next
  case False
  then show ?thesis by (auto simp: str_int_def length_str_nat_two)
qed

section \<open>The sink and the loops\<close>

lemma views_echo [simp]: "views (echo c w) = views w"
  by (simp add: echo_def)

lemma emitter_echo [simp]: "emitter (echo c w) = emitter w @ [c]"
  by (simp add: echo_def)

lemma world_eqI: "emitter a = emitter b \<Longrightarrow> views a = views b \<Longrightarrow> a = (b :: 'v world)"
  by simp

lemma paint_stakes_body_eq:
  "paint_stakes_body env pi sa s (w, n) =
     (if rendered sa s then (w\<lparr>emitter := emitter w @ staker_echoes env pi s\<rparr>, Suc n) else (w, n))"
  by (auto simp: paint_stakes_body_def rendered_def staker_echoes_def Let_def
      split: option.splits intro!: world_eqI)

lemma paint_stakes_fold:
  "foldl (\<lambda>st staker. paint_stakes_body env pi sa staker st) (w, n) xs =
     (w\<lparr>emitter := emitter w @ concat (map (staker_echoes env pi) (filter (rendered sa) xs))\<rparr>,
      n + length (filter (rendered sa) xs))"
proof (induction xs arbitrary: w n)
  case Nil
  show ?case by simp
next
  case (Cons x xs)
  show ?case by (simp add: paint_stakes_body_eq Cons.IH)
qed

lemma paint_stakes_loop_eq:
  "paint_stakes_loop env pi sa w =
     (w\<lparr>emitter := emitter w @ (if get_stakers (views w) = [] then [no_staking_accounts] else []) @
          concat (map (staker_echoes env pi) (filter (rendered sa) (get_stakers (views w))))\<rparr>,
      length (filter (rendered sa) (get_stakers (views w))))"
  by (simp add: paint_stakes_loop_def paint_stakes_start_def paint_stakes_fold)

lemma paint_stakes_eq:
  "paint_stakes env pi sa w =
     w\<lparr>emitter := emitter w @ (if get_stakers (views w) = [] then [no_staking_accounts] else []) @
          concat (map (staker_echoes env pi) (filter (rendered sa) (get_stakers (views w)))) @
          (if filter (rendered sa) (get_stakers (views w)) = [] then [no_stakes_found] else [])\<rparr>"
  by (simp add: paint_stakes_def paint_stakes_loop_eq echo_def)

lemma no_stakes_found_notin: "no_stakes_found \<notin> set (staker_echoes env pi s)"
  by (auto simp: staker_echoes_def no_stakes_found_def staker_line_def worker_line_def
      status_table_def stakes_table_def network_line_def say_def table_def Let_def
      split: option.splits)

lemma no_active_stakes_notin: "no_active_stakes \<notin> set (staker_echoes env pi s)"
  by (auto simp: staker_echoes_def no_active_stakes_def staker_line_def worker_line_def
      status_table_def stakes_table_def network_line_def say_def table_def Let_def
      split: option.splits)

lemma notices_distinct:
  "no_staking_accounts \<noteq> no_active_stakes" "no_stakes_found \<noteq> no_active_stakes"
  "no_staking_accounts \<noteq> no_stakes_found"
  by (simp_all add: no_active_stakes_def no_staking_accounts_def no_stakes_found_def say_def)

lemma count_list_concat_notin:
  "(\<And>x. e \<notin> set (f x)) \<Longrightarrow> count_list (concat (map f xs)) e = 0"
  by (induction xs) (simp_all add: count_list_0_iff)

lemma stake_rows_fold:
  "foldl (\<lambda>rows stake. if \<not> is_active stake \<and> \<not> pi then rows else rows @ [describe stake]) acc xs =
     acc @ map describe (filter (\<lambda>x. is_active x \<or> pi) xs)"
  by (induction xs arbitrary: acc) auto

lemma stake_rows_eq:
  "stake_rows pi xs = map describe (filter (\<lambda>x. is_active x \<or> pi) xs)"
  by (simp add: stake_rows_def stake_rows_fold)

lemma mset_sorted_stakes: "mset (sorted_stakes s) = mset (stakes s)"
  by (simp add: sorted_stakes_def)

lemma for_each_views:
  assumes "\<And>x s. views (final (body x s)) = views s"
  shows "views (final (for_each body xs s)) = views s"
proof (induction xs arbitrary: s)
  case Nil
  show ?case by simp
next
  case (Cons x xs)
  show ?case
  proof (cases "body x s")
    case (Returned s')
    with assms [of x s] have "views s' = views s" by simp
    with Returned Cons.IH [of s'] show ?thesis by simp
  next
    case (Raised e s')
    with assms [of x s] show ?thesis by simp
  qed
qed

lemma paint_stakers_body_views: "views (final (paint_stakers_body env cp x w)) = views w"
  by (simp add: paint_stakers_body_def Let_def split: option.splits prod.splits)

lemma paint_staged_stake_views:
  "views (paint_staged_stake env a v l s u m w) = views w"
  by (simp add: paint_staged_stake_def Let_def split: option.splits)

lemma paint_staged_stake_emits:
  "emitter (paint_staged_stake env a v l s u (Some m) w) =
     emitter w @
     (if m = [] then []
      else [(say (newline @ bars 30 @ '' ORIGINAL STAKE '' @ bars 28))\<lparr>bold := True\<rparr>, say m]) @
     [(say (newline @ bars 30 @ '' STAGED STAKE '' @ bars 30))\<lparr>bold := True\<rparr>,
      say (staged_stake_text env (views w) a v l s u
             (local_strftime env (datetime_at_period env s (seconds_per_period (economics (views w))) True))
             (local_strftime env (datetime_at_period env u (seconds_per_period (economics (views w))) True))),
      (say (bars 73))\<lparr>bold := True\<rparr>]"
  by (simp add: paint_staged_stake_def Let_def)

section \<open>The chain of lines 207 to 216\<close>

text \<open>
  Where the chain is reached, it echoes one line, that of the first case, in the
  order listed, whose condition holds, and some condition always holds. One condition
  alone holds, except when \<open>missing\<close> equals \<open>current_period\<close> and that is 0 or -1: there
  two hold.
\<close>

lemma activity_cases_first_match:
  "length (filter (\<lambda>a. condition a missing current_period) cases_in_order) =
     (if missing = current_period \<and> (current_period = 0 \<or> current_period = - 1) then 2 else 1)
   \<and> activity_line missing current_period last_confirmed_period =
       activity_echo (hd (filter (\<lambda>a. condition a missing current_period) cases_in_order))
         missing last_confirmed_period"
  by (simp add: cases_in_order_def activity_line_def)

lemma activity_cases_overlap_at_zero:
  "condition CurrentConfirmed 0 0 \<and> condition NeverConfirmed 0 0
   \<and> length (filter (\<lambda>a. condition a 0 0) cases_in_order) = 2
   \<and> color (activity_line 0 0 0) = Some Yellow"
  by (simp add: cases_in_order_def activity_line_def say_def)

text \<open>
  The loop body reaches the chain only with \<open>nickname_from_seed\<close> bound, to a function
  that gives at least two pairs.
\<close>

lemma paint_stakers_body_activity:
  assumes "nickname_from_seed env = Some f" and "f staker = (nickname, pairs)"
    and "2 \<le> length pairs" and "views w = (stakers, staking_agent', policy_agent')"
  shows "\<exists>w'. paint_stakers_body env current_period staker w = Returned w'
      \<and> activity_line (current_period - get_last_active_period staking_agent' staker) current_period
            (get_last_active_period staking_agent' staker) \<in> set (emitter w')"
  using assms by (simp add: paint_stakers_body_def Let_def)

section \<open>The claims\<close>

text \<open>
  Claim C1 says that \<open>paint_stakers\<close> handles every pair of \<open>missing\<close> and
  \<open>current_period\<close> by exactly one of the four activity cases, none falling through.
  The module binds no \<open>nickname_from_seed\<close>. A call with a list of stakers that is not
  empty then echoes its four heading lines and raises \<open>NameError\<close> at line 181, in the
  first pass of the loop, before line 192: the activity line of no case reaches the
  sink, whatever \<open>missing\<close>, the current period and the last confirmed period are.
\<close>

theorem paint_stakers_name_error:
  "nickname_from_seed env = None \<Longrightarrow> fst (views w) \<noteq> [] \<Longrightarrow>
     \<exists>w'. paint_stakers env w = Raised NameError w'
        \<and> emitter w' =
            emitter w @
            [say (newline @ ''Current period: '' @ str_int (get_current_period (fst (snd (views w))))),
             say (newline @ ''| Stakers |'' @ newline),
             say (ljust 42 ''Checksum address'' @ ''  Staker information''),
             say (str_times ''='' (42 + 2 + 53))]
        \<and> activity_line missing current_period last_confirmed_period \<notin>
            set (drop (length (emitter w)) (emitter w'))
        \<and> views w' = views w"
proof -
  assume unbound: "nickname_from_seed env = None" and some: "fst (views w) \<noteq> []"
  obtain stakers staking_agent' policy_agent' where v: "views w = (stakers, staking_agent', policy_agent')"
    by (cases "views w") auto
  from some v obtain staker others where s: "stakers = staker # others"
    by (cases stakers) auto
  have colored: "color (activity_line missing current_period last_confirmed_period) \<noteq> None"
    by (simp add: activity_line_def say_def)
  have plain: "color (say m) = None" for m
    by (simp add: say_def)
  have differs: "activity_line missing current_period last_confirmed_period \<noteq> say m" for m
    using colored plain [of m] by auto
  show ?thesis
    by (simp add: paint_stakers_def paint_stakers_body_def Let_def v s unbound differs)
qed

theorem paint_stakers_name_error_witness:
  "nickname_from_seed example_env = None
   \<and> fst (views example_stakers_world) \<noteq> []
   \<and> (\<exists>w'. paint_stakers example_env example_stakers_world = Raised NameError w'
        \<and> length (emitter w') = 4
        \<and> activity_line 0 100 100 \<notin> set (emitter w'))"
proof -
  have h: "nickname_from_seed example_env = None"
    by (simp add: example_env_def)
  have n: "fst (views example_stakers_world) \<noteq> []"
    by (simp add: example_stakers_world_def)
  from paint_stakers_name_error [OF h n, of 0 100 100]
  obtain w' where r: "paint_stakers example_env example_stakers_world = Raised NameError w'"
    and e: "emitter w' =
            emitter example_stakers_world @
            [say (newline @ ''Current period: '' @
                  str_int (get_current_period (fst (snd (views example_stakers_world))))),
             say (newline @ ''| Stakers |'' @ newline),
             say (ljust 42 ''Checksum address'' @ ''  Staker information''),
             say (str_times ''='' (42 + 2 + 53))]"
    and a: "activity_line 0 100 100 \<notin> set (drop (length (emitter example_stakers_world)) (emitter w'))"
    by blast
  have empty: "emitter example_stakers_world = []"
    by (simp add: example_stakers_world_def)
  from e empty have "length (emitter w') = 4" by simp
  moreover from a empty have "activity_line 0 100 100 \<notin> set (emitter w')" by simp
  ultimately show ?thesis using h n r by blast
qed

text \<open>
  Claim C2. The label of \<open>paint_stakes\<close> is "Never Confirmed (New Stake)" for the count
  -1, "Confirmed #" and the last confirmed period for the count 0, and, for a count
  \<open>n > 0\<close>, "Missing n confirmation" with an "s" appended exactly when \<open>n > 1\<close>. It is
  the first cell of the status table of a staker, beside the header "Status".
\<close>

theorem missing_info_label:
  "missing_info (- 1) last_confirmed = ''Never Confirmed (New Stake)''
   \<and> missing_info 0 last_confirmed = ''Confirmed #'' @ str_int last_confirmed
   \<and> (0 < n \<longrightarrow>
        missing_info n last_confirmed =
          ''Missing '' @ str_int n @ '' confirmation'' @ (if 1 < n then ''s'' else []))
   \<and> (\<exists>rest. message (status_table env staker) =
        Tabulate
          ([''Status'',
            missing_info (missing_confirmations staker)
              (get_last_active_period (staking_agent staker) (checksum_address staker))] # rest)
          [] None (Some ''fancy_grid'') False)"
  by (simp add: missing_info_def status_table_def staker_data_def staker_headers_def table_def
      Let_def)

theorem missing_info_label_witness:
  "(0 :: int) < 1 \<and> missing_info 1 100 = ''Missing 1 confirmation''
   \<and> (0 :: int) < 3 \<and> missing_info 3 100 = ''Missing 3 confirmations''"
  using missing_info_label [of 100 1 example_env "example_staker 0 0 []"]
    missing_info_label [of 100 3 example_env "example_staker 0 0 []"]
  by (simp add: str_int_def str_nat.simps digit_char_def)

text \<open>
  Claim C3, as the code has it. The header line of a staker is bold, red when the
  count of missing confirmations is not 0 (the count -1 of a staker that never
  confirmed included) and green when it is 0. It is echoed for every staker rendered.
\<close>

theorem staker_line_color:
  "color (staker_line staker) = Some (if missing_confirmations staker = 0 then Green else Red)
   \<and> bold (staker_line staker)
   \<and> staker_line staker \<in> set (staker_echoes env paint_inactive staker)
   \<and> emitter (fst (paint_stakes_body env paint_inactive staker_address' staker (w, total_stakers))) =
       emitter w @
         (if rendered staker_address' staker then staker_echoes env paint_inactive staker else [])"
  by (simp add: staker_line_def say_def staker_echoes_def paint_stakes_body_eq)

text \<open>
  Claim C3 as stated fails at the count -1: the header line of a staker that never
  confirmed, labelled "Never Confirmed (New Stake)", is red, and \<open>paint_stakes\<close> echoes it.
\<close>

theorem staker_line_red_when_never_confirmed:
  "color (staker_line (example_staker (- 1) 0 [example_stake 0 True])) = Some Red
   \<and> hd (staker_data example_env (example_staker (- 1) 0 [example_stake 0 True])) =
       ''Never Confirmed (New Stake)''
   \<and> rendered None (example_staker (- 1) 0 [example_stake 0 True])
   \<and> staker_line (example_staker (- 1) 0 [example_stake 0 True]) \<in>
       set (emitter (paint_stakes example_env False None
         \<lparr>emitter = [], views = example_stakeholder [example_staker (- 1) 0 [example_stake 0 True]]\<rparr>))"
  by (simp add: paint_stakes_eq staker_echoes_def rendered_def staker_line_def say_def
      staker_data_def missing_info_def example_staker_def example_stakeholder_def Let_def)

text \<open>
  Claim C4. The loop body of \<open>paint_stakes\<close> leaves the sink and the counter
  \<open>total_stakers\<close> as they are for a staker with no stakes. The counter ends at the
  number of stakers rendered, and the call adds the red notice "No Stakes found" to
  the sink once when that number is 0 and not at all otherwise.
\<close>

theorem no_stakes_found_notice:
  "paint_stakes_body env paint_inactive staker_address' (staker\<lparr>stakes := []\<rparr>) (w', total_stakers) =
     (w', total_stakers)
   \<and> snd (paint_stakes_loop env paint_inactive staker_address' w) =
       length (filter (rendered staker_address') (get_stakers (views w)))
   \<and> count_list (emitter (paint_stakes env paint_inactive staker_address' w)) no_stakes_found =
       count_list (emitter w) no_stakes_found +
         (if length (filter (rendered staker_address') (get_stakers (views w))) = 0 then 1 else 0)
   \<and> color no_stakes_found = Some Red \<and> message no_stakes_found = Str ''No Stakes found''"
  by (simp add: paint_stakes_eq paint_stakes_loop_eq count_list_concat_notin no_stakes_found_notin
      paint_stakes_body_def notices_distinct)
    (simp add: no_stakes_found_def say_def)

text \<open>
  Claim C5. \<open>paint_staged_stake_division\<close> calls \<open>paint_staged_stake\<close> with
  \<open>lock_periods = new_end_period - first_locked_period + 1\<close>, \<open>start_period\<close> the first
  locked period of the original stake and \<open>unlock_period = new_end_period + 1\<close>, where
  \<open>new_end_period\<close> is the final locked period of the original stake plus the
  extension, in integers without bound; the text of the staged stake it echoes shows
  these three numbers.
\<close>

theorem staged_stake_division_periods:
  "paint_staged_stake_division env target_value extension w =
     (let stakeholder = fst (views w);
          original_stake = snd (views w);
          new_end_period = final_locked_period original_stake + extension;
          new_duration_periods = new_end_period - first_locked_period original_stake + 1;
          w' = paint_staged_stake env (staker_address original_stake) target_value
                 new_duration_periods (first_locked_period original_stake) (new_end_period + 1)
                 (Some (newline @ ''Staking address: '' @ staker_address original_stake @
                        newline @ ''~ Original Stake: '' @
                        fst (prettify_stake env None original_stake) @ newline))
                 \<lparr>emitter = emitter w, views = stakeholder\<rparr>
      in \<lparr>emitter = emitter w', views = (views w', original_stake)\<rparr>)
   \<and> say (staged_stake_text env (fst (views w)) (staker_address (snd (views w))) target_value
            (final_locked_period (snd (views w)) + extension - first_locked_period (snd (views w)) + 1)
            (first_locked_period (snd (views w)))
            (final_locked_period (snd (views w)) + extension + 1)
            (local_strftime env (datetime_at_period env (first_locked_period (snd (views w)))
               (seconds_per_period (economics (fst (views w)))) True))
            (local_strftime env (datetime_at_period env
               (final_locked_period (snd (views w)) + extension + 1)
               (seconds_per_period (economics (fst (views w)))) True)))
       \<in> set (emitter (paint_staged_stake_division env target_value extension w))"
proof (cases "views w")
  case (Pair stakeholder original_stake)
  define pretty where "pretty = fst (prettify_stake env None original_stake)"
  have p: "prettify_stake env None original_stake = (pretty, original_stake)"
    by (simp add: pretty_def prettify_stake_def Let_def)
  have m: "newline @ ''Staking address: '' @ staker_address original_stake @
      newline @ ''~ Original Stake: '' @ pretty @ newline \<noteq> []"
    by (simp add: newline_def)
  show ?thesis
    by (simp add: paint_staged_stake_division_def Pair p m Let_def paint_staged_stake_emits
        paint_staged_stake_views)
qed

text \<open>
  Claim C6. The rows of the stake table of a staker are the descriptions of the
  stakes kept (the active ones, or all when \<open>paint_inactive\<close> is set), taken from the
  stakes sorted by \<open>address_index_ordering_key\<close>: the keys of the rows, in the order
  of the rows, never decrease, whatever the order of \<open>staker.stakes\<close>, of which the
  sorted stakes are a rearrangement.
\<close>

theorem stake_table_rows_sorted:
  "message (stakes_table paint_inactive staker) =
     Tabulate (map describe (filter (\<lambda>s. is_active s \<or> paint_inactive) (sorted_stakes staker)))
       headers (Some ''fancy_grid'') None False
   \<and> sorted (map address_index_ordering_key
       (filter (\<lambda>s. is_active s \<or> paint_inactive) (sorted_stakes staker)))
   \<and> mset (sorted_stakes staker) = mset (stakes staker)"
  by (simp add: stakes_table_def table_def stake_rows_eq mset_sorted_stakes)
    (simp add: sorted_stakes_def sorted_filter)

text \<open>
  Claim C7. Without \<open>paint_inactive\<close> the rows of the stake table are the
  descriptions of the active stakes of the staker and of no other stake; with
  \<open>paint_inactive\<close> they are the descriptions of all its stakes, one row for each.
\<close>

theorem stake_table_rows_inactive:
  "stake_rows False (sorted_stakes staker) = map describe (filter is_active (sorted_stakes staker))
   \<and> mset (filter is_active (sorted_stakes staker)) = filter_mset is_active (mset (stakes staker))
   \<and> stake_rows True (sorted_stakes staker) = map describe (sorted_stakes staker)
   \<and> mset (sorted_stakes staker) = mset (stakes staker)
   \<and> message (stakes_table paint_inactive staker) =
       Tabulate (stake_rows paint_inactive (sorted_stakes staker)) headers (Some ''fancy_grid'') None False"
  by (simp add: stake_rows_eq mset_sorted_stakes stakes_table_def table_def)

text \<open>
  Claim C8. Every render function leaves the views passed to it as they were: the
  state after the call has the views of the state before it, also when
  \<open>paint_stakers\<close> ends by an exception. Only the sink changes.
\<close>

theorem render_leaves_views:
  "views (paint_stakes env paint_inactive staker_address' w_stakes) = views w_stakes
   \<and> snd (prettify_stake env idx stake) = stake
   \<and> views (paint_staged_stake_division env target_value extension w_division) = views w_division
   \<and> views (paint_staged_stake env staking_address stake_value lock_periods start_period
        unlock_period division_message w_staged) = views w_staged
   \<and> views (final (paint_stakers env w_stakers)) = views w_stakers
   \<and> views (paint_staking_confirmation env w_confirmation) = views w_confirmation
   \<and> views (paint_staking_accounts env w_accounts) = views w_accounts"
proof -
  have a: "views (paint_stakes env paint_inactive staker_address' w_stakes) = views w_stakes"
    by (simp add: paint_stakes_eq)
  have b: "snd (prettify_stake env idx stake) = stake"
    by (simp add: prettify_stake_def Let_def)
  have c: "views (paint_staged_stake_division env target_value extension w_division) = views w_division"
    by (simp add: paint_staged_stake_division_def prettify_stake_def Let_def
        paint_staged_stake_views split: prod.splits)
  have d: "views (final (paint_stakers env w_stakers)) = views w_stakers"
    by (simp add: paint_stakers_def Let_def for_each_views paint_stakers_body_views
        split: prod.splits)
  have e: "views (paint_staking_confirmation env w_confirmation) = views w_confirmation"
    by (simp add: paint_staking_confirmation_def Let_def split: prod.splits)
  have f: "views (paint_staking_accounts env w_accounts) = views w_accounts"
    by (simp add: paint_staking_accounts_def Let_def split: prod.splits)
  from a b c d e f show ?thesis
    by (simp add: paint_staged_stake_views)
qed

text \<open>
  Claim C9. The guard of the branch that echoes "There are no active stakes" tests a
  filter object, which is true whatever the stakes are, so the branch is never taken:
  a call of \<open>paint_stakes\<close> adds no such message to the sink, also when every stake of
  a staker is inactive.
\<close>

theorem no_active_stakes_unreachable:
  "truthy_filter (Filter is_active (sorted_stakes staker))
   \<and> count_list (emitter (paint_stakes env paint_inactive staker_address' w)) no_active_stakes =
       count_list (emitter w) no_active_stakes
   \<and> no_active_stakes \<notin> set (staker_echoes env paint_inactive staker)"
  by (simp add: paint_stakes_eq count_list_concat_notin no_active_stakes_notin notices_distinct)

text \<open>
  Claim C10. The duration field of \<open>prettify_stake\<close> is the duration in decimal, then
  " periods ", then a dot exactly when the decimal has two characters, that is for the
  durations 10 to 99 and -9 to -1. The width of the field is not the same for all
  durations: 10 characters for 5, 12 for 10 and for 100, 13 for 1000.
\<close>

theorem pretty_periods_dot:
  "pretty_periods d =
     str_int d @ '' periods '' @
       (if (10 \<le> d \<and> d \<le> 99) \<or> (- 9 \<le> d \<and> d \<le> - 1) then ''.'' else [])
   \<and> (\<exists>before after. fst (prettify_stake env idx stake) =
         before @ ''| '' @ pretty_periods (duration stake) @ '' '' @ after)
   \<and> length (pretty_periods 5) = 10 \<and> length (pretty_periods 10) = 12
   \<and> length (pretty_periods 100) = 12 \<and> length (pretty_periods 1000) = 13"
proof -
  have a: "pretty_periods d =
     str_int d @ '' periods '' @
       (if (10 \<le> d \<and> d \<le> 99) \<or> (- 9 \<le> d \<and> d \<le> - 1) then ''.'' else [])"
    unfolding pretty_periods_def length_str_int_two ..
  have b: "\<exists>before after. fst (prettify_stake env idx stake) =
         before @ ''| '' @ pretty_periods (duration stake) @ '' '' @ after"
    unfolding prettify_stake_def Let_def fst_conv
    by (rule exI [of _ "''| '' @ (case idx of Some i \<Rightarrow> str_int i | None \<Rightarrow> ''-'') @ '' '' @
            ''| '' @ take 6 (staker_address stake) @ '' '' @
            ''| '' @ take 6 (worker_address stake) @ '' '' @
            ''| '' @ str_int (index stake) @ '' '' @
            ''| '' @ str_NU env (value_nu stake) @ '' ''"],
        rule exI [of _ "''| '' @ local_strftime env (start_datetime stake) @ '' - '' @
            local_strftime env (unlock_datetime stake) @ '' ''"]) simp
  have c: "length (pretty_periods 5) = 10 \<and> length (pretty_periods 10) = 12
     \<and> length (pretty_periods 100) = 12 \<and> length (pretty_periods 1000) = 13"
    by (simp add: pretty_periods_def str_int_def str_nat.simps digit_char_def)
  from a b c show ?thesis by blast
qed

section \<open>The model on concrete inputs\<close>

text \<open>
  One staker with the count 0 of missing confirmations, last confirmed in period 100,
  with an inactive and an active stake, painted without the inactive stakes: the
  status reads "Confirmed #100", the header is green and the stake table has the one
  row of the active stake.
\<close>

lemma paint_stakes_example:
  "emitter (paint_stakes example_env False None
     \<lparr>emitter = [],
      views = example_stakeholder [example_staker 0 100 [example_stake 1 False, example_stake 0 True]]\<rparr>) =
   [\<lparr>message = Str (''Staker 0xA1B2C3D4E5 '' @ replicate 4 double_bar), color = Some Green,
      bold = True, nl = True\<rparr>,
    say (''Worker 0xF6A7B8C9D0 '' @ replicate 4 double_bar),
    table [[''Status'', ''Confirmed #100''], [''Restaking'', ''Yes (Unlocked)''],
           [''Winding Down'', ''No''], [''Unclaimed Fees'', ''0 wei''],
           [''Min reward rate'', ''0 wei'']] [] None (Some ''fancy_grid'') False,
    table [[''0'', ''15000 NU'', ''30'', ''100'', ''130'']] headers (Some ''fancy_grid'') None False]"
  by (simp add: paint_stakes_eq rendered_def staker_echoes_def staker_line_def worker_line_def
      status_table_def stakes_table_def staker_data_def staker_headers_def missing_info_def
      stake_rows_eq sorted_stakes_def example_staker_def example_stakeholder_def example_stake_def
      example_env_def say_def table_def str_times_def str_int_def str_nat.simps digit_char_def
      Let_def)

lemma capitalize_example: "capitalize ''goerli'' = ''Goerli'' \<and> capitalize ''MAINNET'' = ''Mainnet''"
  by code_simp

text \<open>
  With a binding of \<open>nickname_from_seed\<close>, the call of \<open>paint_stakers\<close> returns, and the activity line of a staker whose last
  confirmed period is the current one is the yellow line of "current period confirmed".
\<close>

lemma paint_stakers_example:
  "(case paint_stakers
      (example_env\<lparr>nickname_from_seed :=
         Some (\<lambda>a. (''Jade Otter'', [(''red'', ''X''), (''blue'', ''Y'')]))\<rparr>)
      example_stakers_world of
      Returned w' \<Rightarrow> map color (emitter w') =
        [None, None, None, None, None, None, None, None, None, Some Yellow, None, None, None, None]
        \<and> emitter w' ! 9 = activity_echo CurrentConfirmed 0 100
    | Raised e w' \<Rightarrow> False)"
  by (simp add: paint_stakers_def paint_stakers_body_def example_stakers_world_def
      example_staker_def example_env_def activity_line_def say_def Let_def)

end
